theory Spec2Isabelle
  imports Complex_Main
begin

section \<open>Data model\<close>

text \<open>
  The simulation lives in one source file, the component \<open>HeptagonSimulation\<close>
  (\<open>src/unnamed/part_000\<close>). TypeScript's \<open>number\<close> is modelled as \<open>real\<close>: the
  specification describes a vector as a pair of real-valued coordinates, and every
  statement below is about that idealised arithmetic; rounding of IEEE doubles is outside
  the model.

  \<open>Ball\<close> extends \<open>Vector\<close>: the source passes balls to \<open>sub\<close>, which only reads the
  fields \<open>x\<close> and \<open>y\<close> (structural typing), so the vector operations take any extension
  of \<open>Vector\<close>. The field \<open>id\<close> of the source is named \<open>ball_id\<close> here.
\<close>

record Vector =
  x :: real
  y :: real

record Ball = Vector +
  ball_id :: nat
  vx :: real
  vy :: real
  radius :: real
  color :: string
  mass :: real

text \<open>
  The closure constants \<open>centerX\<close>, \<open>centerY\<close> and \<open>heptagonRadius\<close> are computed once
  from the window size, which is outside the model; they are the fields of \<open>World\<close>.
  The mutable state of the closure is the rotation angle and the array of balls.
\<close>

record World =
  centerX :: real
  centerY :: real
  heptagonRadius :: real

record Sim =
  rotationAngle :: real
  balls :: "Ball list"

section \<open>Constants\<close>

definition GRAVITY :: real where
  "GRAVITY = 15 / 100"

definition FRICTION :: real where
  "FRICTION = 99 / 100"

definition WALL_BOUNCE :: real where
  "WALL_BOUNCE = 7 / 10"

definition ROTATION_SPEED :: real where
  "ROTATION_SPEED = 1 / 100"

definition HEPTAGON_SIDES :: nat where
  "HEPTAGON_SIDES = 7"

definition SUB_STEPS :: nat where
  "SUB_STEPS = 8"

section \<open>Helper functions\<close>

definition dot :: "'a Vector_scheme \<Rightarrow> 'b Vector_scheme \<Rightarrow> real" where
  "dot v1 v2 = x v1 * x v2 + y v1 * y v2"

definition sub :: "'a Vector_scheme \<Rightarrow> 'b Vector_scheme \<Rightarrow> Vector" where
  "sub v1 v2 = \<lparr>x = x v1 - x v2, y = y v1 - y v2\<rparr>"

definition add :: "'a Vector_scheme \<Rightarrow> 'b Vector_scheme \<Rightarrow> Vector" where
  "add v1 v2 = \<lparr>x = x v1 + x v2, y = y v1 + y v2\<rparr>"

definition mult :: "'a Vector_scheme \<Rightarrow> real \<Rightarrow> Vector" where
  "mult v s = \<lparr>x = x v * s, y = y v * s\<rparr>"

definition length_v :: "'a Vector_scheme \<Rightarrow> real" where
  "length_v v = sqrt (x v * x v + y v * y v)"

definition normalize_v :: "'a Vector_scheme \<Rightarrow> Vector" where
  "normalize_v v =
     (let len = length_v v
      in if len = 0 then \<lparr>x = 0, y = 0\<rparr> else \<lparr>x = x v / len, y = y v / len\<rparr>)"

text \<open>
  \<open>Math.atan2\<close> is a built-in of the language; over the reals it is the angle of the
  point \<open>(b, a)\<close> in the interval from \<open>-pi\<close> (excluded) to \<open>pi\<close>, and \<open>0\<close> at the origin.
\<close>

definition atan2 :: "real \<Rightarrow> real \<Rightarrow> real" where
  "atan2 a b =
     (if 0 < b then arctan (a / b)
      else if b < 0 then (if 0 \<le> a then arctan (a / b) + pi else arctan (a / b) - pi)
      else if 0 < a then pi / 2
      else if a < 0 then - (pi / 2)
      else 0)"

section \<open>Physics engine\<close>

subsection \<open>Heptagon vertices\<close>

text \<open>The loop of lines 90-97 pushes one vertex for each \<open>i\<close> from \<open>0\<close> to \<open>6\<close>.\<close>

definition calcVertices :: "World \<Rightarrow> real \<Rightarrow> Vector list" where
  "calcVertices w rot =
     map (\<lambda>i. let theta = rot + (real i * 2 * pi) / real HEPTAGON_SIDES
              in \<lparr>x = centerX w + heptagonRadius w * cos theta,
                  y = centerY w + heptagonRadius w * sin theta\<rparr>)
         [0..<HEPTAGON_SIDES]"

subsection \<open>Forces and movement\<close>

text \<open>Lines 105-111: gravity, damping, then the move by \<open>dt = 1 / SUB_STEPS\<close>.\<close>

definition applyForces :: "Ball \<Rightarrow> Ball" where
  "applyForces ball =
     (let dt = 1 / real SUB_STEPS;
          b1 = ball\<lparr>vy := vy ball + GRAVITY * dt\<rparr>;
          b2 = b1\<lparr>vx := vx b1 * FRICTION\<rparr>;
          b3 = b2\<lparr>vy := vy b2 * FRICTION\<rparr>;
          b4 = b3\<lparr>x := x b3 + vx b3 * dt\<rparr>
      in b4\<lparr>y := y b4 + vy b4 * dt\<rparr>)"

subsection \<open>Wall collision\<close>

text \<open>
  The body of the edge loop (lines 117-222) for the edge from \<open>p1\<close> to \<open>p2\<close>, split at
  its local variables. The locals \<open>collided\<close>, \<open>wallLen\<close>, \<open>projection\<close>, \<open>wallVel\<close>,
  \<open>tangent\<close> of the source are assigned and never read, so they do not appear.
\<close>

definition wallNormal :: "World \<Rightarrow> Vector \<Rightarrow> Vector \<Rightarrow> Vector" where
  "wallNormal w p1 p2 =
     (let wallVec = sub p2 p1;
          wallUnit = normalize_v wallVec;
          mid = mult (add p1 p2) (1 / 2);
          toCenter = sub \<lparr>x = centerX w, y = centerY w\<rparr> mid;
          normal = \<lparr>x = - y wallUnit, y = x wallUnit\<rparr>
      in if dot normal toCenter < 0 then \<lparr>x = - x normal, y = - y normal\<rparr> else normal)"

definition wallDist :: "World \<Rightarrow> Vector \<Rightarrow> Vector \<Rightarrow> Ball \<Rightarrow> real" where
  "wallDist w p1 p2 ball =
     (let toBall = sub \<lparr>x = x ball, y = y ball\<rparr> p1
      in dot toBall (wallNormal w p1 p2))"

text \<open>Lines 166-168: the push along the normal by \<open>radius - dist\<close>.\<close>

definition wallPush :: "World \<Rightarrow> Vector \<Rightarrow> Vector \<Rightarrow> Ball \<Rightarrow> Ball" where
  "wallPush w p1 p2 ball =
     (let normal = wallNormal w p1 p2;
          overlap = radius ball - wallDist w p1 p2 ball;
          b1 = ball\<lparr>x := x ball + x normal * overlap\<rparr>
      in b1\<lparr>y := y b1 + y normal * overlap\<rparr>)"

text \<open>Lines 203-210: the velocity given to the wall at the position of the ball.\<close>

definition wallV :: "World \<Rightarrow> Ball \<Rightarrow> Vector" where
  "wallV w ball =
     (let rVector = sub \<lparr>x = x ball, y = y ball\<rparr> \<lparr>x = centerX w, y = centerY w\<rparr>;
          distFromCenter = length_v rVector;
          wallSpeed = distFromCenter * ROTATION_SPEED * 60
      in \<lparr>x = - sin (atan2 (y ball - centerY w) (x ball - centerX w)) * wallSpeed * (2 / 10),
          y = cos (atan2 (y ball - centerY w) (x ball - centerX w)) * wallSpeed * (2 / 10)\<rparr>)"

text \<open>Lines 212-213, read after the push.\<close>

definition wallVRel :: "World \<Rightarrow> Ball \<Rightarrow> Vector" where
  "wallVRel w ball = sub \<lparr>x = vx ball, y = vy ball\<rparr> (wallV w ball)"

text \<open>Lines 215-221: the reflection in the frame of the wall.\<close>

definition wallReflect :: "World \<Rightarrow> Vector \<Rightarrow> Ball \<Rightarrow> Ball" where
  "wallReflect w normal ball =
     (let wv = wallV w ball;
          vRel = wallVRel w ball;
          vRelDotN = dot vRel normal
      in if vRelDotN < 0
         then (let j = - (1 + WALL_BOUNCE) * vRelDotN;
                   impulse = mult normal j;
                   b1 = ball\<lparr>vx := (x vRel + x impulse) + x wv\<rparr>
               in b1\<lparr>vy := (y vRel + y impulse) + y wv\<rparr>)
         else ball)"

definition wallCollision :: "World \<Rightarrow> Vector \<Rightarrow> Vector \<Rightarrow> Ball \<Rightarrow> Ball" where
  "wallCollision w p1 p2 ball =
     (if wallDist w p1 p2 ball < radius ball
      then wallReflect w (wallNormal w p1 p2) (wallPush w p1 p2 ball)
      else ball)"

text \<open>The edge loop of lines 116-223 over the seven edges, in order.\<close>

definition wallCollisions :: "World \<Rightarrow> Vector list \<Rightarrow> Ball \<Rightarrow> Ball" where
  "wallCollisions w vertices ball =
     foldl (\<lambda>b i. wallCollision w (vertices ! i) (vertices ! ((i + 1) mod HEPTAGON_SIDES)) b)
           ball [0..<HEPTAGON_SIDES]"

subsection \<open>Ball to ball collision\<close>

text \<open>
  The body of the inner loop (lines 229-268) for one pair, returning the new \<open>ball\<close> and
  the new \<open>other\<close>. The early \<open>continue\<close> of line 253 is the branch \<open>0 < vn\<close>.
\<close>

definition ballNormal :: "Ball \<Rightarrow> Ball \<Rightarrow> Vector" where
  "ballNormal ball other = normalize_v (sub other ball)"

definition ballDist :: "Ball \<Rightarrow> Ball \<Rightarrow> real" where
  "ballDist ball other = length_v (sub other ball)"

text \<open>Lines 236-244: each ball moves by half of the overlap.\<close>

definition ballSeparate :: "Ball \<Rightarrow> Ball \<Rightarrow> Ball \<times> Ball" where
  "ballSeparate ball other =
     (let minDist = radius ball + radius other;
          overlap = minDist - ballDist ball other;
          n = ballNormal ball other;
          correction = mult n (overlap * (1 / 2));
          b1 = ball\<lparr>x := x ball - x correction\<rparr>;
          b2 = b1\<lparr>y := y b1 - y correction\<rparr>;
          o1 = other\<lparr>x := x other + x correction\<rparr>;
          o2 = o1\<lparr>y := y o1 + y correction\<rparr>
      in (b2, o2))"

text \<open>Lines 248-249.\<close>

definition ballVn :: "Vector \<Rightarrow> Ball \<Rightarrow> Ball \<Rightarrow> real" where
  "ballVn n ball other =
     (let vRel = sub \<lparr>x = vx ball, y = vy ball\<rparr> \<lparr>x = vx other, y = vy other\<rparr>
      in dot vRel n)"

text \<open>Lines 251-267.\<close>

definition ballImpulse :: "Vector \<Rightarrow> Ball \<Rightarrow> Ball \<Rightarrow> Ball \<times> Ball" where
  "ballImpulse n ball other =
     (let vn = ballVn n ball other
      in if 0 < vn then (ball, other)
         else (let restitution = 8 / 10;
                   impulseScalar = (- (1 + restitution) * vn) / 2;
                   impulse = mult n impulseScalar;
                   b1 = ball\<lparr>vx := vx ball + x impulse\<rparr>;
                   b2 = b1\<lparr>vy := vy b1 + y impulse\<rparr>;
                   o1 = other\<lparr>vx := vx other - x impulse\<rparr>;
                   o2 = o1\<lparr>vy := vy o1 - y impulse\<rparr>
               in (b2, o2)))"

definition ballCollision :: "Ball \<Rightarrow> Ball \<Rightarrow> Ball \<times> Ball" where
  "ballCollision ball other =
     (if ballDist ball other < radius ball + radius other
      then (case ballSeparate ball other of (b, ot) \<Rightarrow> ballImpulse (ballNormal ball other) b ot)
      else (ball, other))"

text \<open>
  The inner loop of lines 227-269 for the ball at index \<open>i\<close>, over the indices \<open>js\<close> still
  to visit. \<open>ball\<close> and \<open>other\<close> are references into the array: both writes land in it.
  A pair with equal ids is skipped, which covers \<open>j = i\<close>.
\<close>

fun ballCollisions :: "nat \<Rightarrow> nat list \<Rightarrow> Ball list \<Rightarrow> Ball list" where
  "ballCollisions i [] bs = bs"
| "ballCollisions i (j # js) bs =
     (if ball_id (bs ! i) = ball_id (bs ! j) then ballCollisions i js bs
      else (case ballCollision (bs ! i) (bs ! j) of
              (b, ot) \<Rightarrow> ballCollisions i js ((bs[i := b])[j := ot])))"

subsection \<open>The step\<close>

text \<open>The callback of \<open>balls.forEach\<close> (lines 103-270) for the ball at index \<open>i\<close>.\<close>

definition stepBall :: "World \<Rightarrow> Vector list \<Rightarrow> Ball list \<Rightarrow> nat \<Rightarrow> Ball list" where
  "stepBall w vertices bs i =
     (let ball = wallCollisions w vertices (applyForces (bs ! i));
          bs1 = bs[i := ball]
      in ballCollisions i [0..<length bs1] bs1)"

definition subStep :: "World \<Rightarrow> Vector list \<Rightarrow> Ball list \<Rightarrow> Ball list" where
  "subStep w vertices bs = foldl (stepBall w vertices) bs [0..<length bs]"

definition updatePhysics :: "World \<Rightarrow> Sim \<Rightarrow> Sim" where
  "updatePhysics w s =
     (let rot = rotationAngle s + ROTATION_SPEED;
          vertices = calcVertices w rot
      in \<lparr>rotationAngle = rot, balls = (subStep w vertices ^^ SUB_STEPS) (balls s)\<rparr>)"

text \<open>
  Line 69 and lines 72-81: the angle starts at \<open>0\<close>; the balls are drawn at random, so
  the initial array is a parameter.
\<close>

definition initSim :: "Ball list \<Rightarrow> Sim" where
  "initSim bs = \<lparr>rotationAngle = 0, balls = bs\<rparr>"

section \<open>Concrete scenes\<close>

text \<open>
  A ball as the initialiser of lines 72-81 builds it (mass \<open>1\<close>), with the given id,
  position, velocity and radius.
\<close>

definition mkBall :: "nat \<Rightarrow> real \<Rightarrow> real \<Rightarrow> real \<Rightarrow> real \<Rightarrow> real \<Rightarrow> Ball" where
  "mkBall i px py a b r =
     \<lparr>x = px, y = py, ball_id = i, vx = a, vy = b, radius = r,
      color = ''hsl(0, 70%, 60%)'', mass = 1\<rparr>"

text \<open>
  One edge, from \<open>(0, 5)\<close> to \<open>(1, 5)\<close>, of a container centred at the origin; its inward
  normal is \<open>(0, -1)\<close>.
\<close>

definition edgeWorld :: World where
  "edgeWorld = \<lparr>centerX = 0, centerY = 0, heptagonRadius = 5\<rparr>"

definition edgeP1 :: Vector where
  "edgeP1 = \<lparr>x = 0, y = 5\<rparr>"

definition edgeP2 :: Vector where
  "edgeP2 = \<lparr>x = 1, y = 5\<rparr>"

text \<open>
  The container of a window of width or height \<open>0\<close>: \<open>heptagonRadius\<close> is \<open>0\<close> and
  every vertex is the centre.
\<close>

definition flatWorld :: World where
  "flatWorld = \<lparr>centerX = 0, centerY = 0, heptagonRadius = 0\<rparr>"

text \<open>The container of a window of width and height \<open>1000\<close>.\<close>

definition wideWorld :: World where
  "wideWorld = \<lparr>centerX = 500, centerY = 500, heptagonRadius = 400\<rparr>"

section \<open>Relating two runs\<close>

text \<open>
  Two balls agree on everything but \<open>color\<close> and \<open>mass\<close>; \<open>erase\<close> overwrites these
  two fields, so that two such balls have the same image.
\<close>

definition samePhysics :: "Ball \<Rightarrow> Ball \<Rightarrow> bool" where
  "samePhysics b c \<longleftrightarrow>
     ball_id b = ball_id c \<and> x b = x c \<and> y b = y c \<and> vx b = vx c \<and> vy b = vy c \<and>
     radius b = radius c"

definition erase :: "Ball \<Rightarrow> Ball" where
  "erase b = b\<lparr>color := [], mass := 0\<rparr>"

section \<open>Geometry kernel\<close>

lemma length_v_zero_iff: "length_v v = 0 \<longleftrightarrow> x v = 0 \<and> y v = 0"
  unfolding length_v_def
  by (metis power2_eq_square real_sqrt_eq_zero_cancel_iff sum_power2_eq_zero_iff)

lemma length_v_sq: "length_v v * length_v v = x v * x v + y v * y v"
  by (simp add: length_v_def)

lemma normalize_v_degenerate: "length_v v = 0 \<Longrightarrow> normalize_v v = \<lparr>x = 0, y = 0\<rparr>"
  by (simp add: normalize_v_def)

lemma normalize_v_unit:
  assumes "length_v v \<noteq> 0"
  shows "dot (normalize_v v) (normalize_v v) = 1"
proof -
  have "x v * x v + y v * y v = length_v v * length_v v"
    by (simp add: length_v_sq)
  then show ?thesis using assms
    by (simp add: normalize_v_def dot_def Let_def add_divide_distrib[symmetric])
qed

lemma dot_zero_left: "dot \<lparr>x = 0, y = 0\<rparr> v = 0"
  by (simp add: dot_def)

lemma dot_zero_right: "dot v \<lparr>x = 0, y = 0\<rparr> = 0"
  by (simp add: dot_def)

text \<open>
  C8. \<open>normalize\<close> of the zero vector is the zero vector. The length of a vector is zero
  exactly for the zero vector, so for every other vector the guard sends \<open>normalize\<close> to
  the division branch, where the divisor is not zero, and the result is the vector
  divided by its length.
\<close>

theorem normalize_v_guarded:
  "normalize_v \<lparr>x = 0, y = 0\<rparr> = \<lparr>x = 0, y = 0\<rparr> \<and>
   (length_v v = 0 \<longleftrightarrow> x v = 0 \<and> y v = 0) \<and>
   (\<not> (x v = 0 \<and> y v = 0) \<longrightarrow>
      length_v v \<noteq> 0 \<and> normalize_v v = \<lparr>x = x v / length_v v, y = y v / length_v v\<rparr>)"
  using length_v_zero_iff [of v] by (simp add: normalize_v_def Let_def length_v_def)

theorem normalize_v_guarded_witness:
  "\<not> (x \<lparr>x = 3, y = 4\<rparr> = 0 \<and> y \<lparr>x = 3, y = 4\<rparr> = 0) \<and>
   length_v \<lparr>x = 3, y = 4\<rparr> = 5 \<and>
   normalize_v \<lparr>x = 3, y = 4\<rparr> = \<lparr>x = 3 / 5, y = 4 / 5\<rparr>"
  using normalize_v_guarded [of "\<lparr>x = 3, y = 4\<rparr>"] by (simp add: length_v_def)

section \<open>Facts about the concrete scenes\<close>

lemma mkBall_sel:
  "x (mkBall i px py a b r) = px" "y (mkBall i px py a b r) = py"
  "vx (mkBall i px py a b r) = a" "vy (mkBall i px py a b r) = b"
  "radius (mkBall i px py a b r) = r" "ball_id (mkBall i px py a b r) = i"
  by (simp_all add: mkBall_def)

lemma mkBall_upd:
  "(mkBall i px py a b r)\<lparr>x := px'\<rparr> = mkBall i px' py a b r"
  "(mkBall i px py a b r)\<lparr>y := py'\<rparr> = mkBall i px py' a b r"
  "(mkBall i px py a b r)\<lparr>vx := a'\<rparr> = mkBall i px py a' b r"
  "(mkBall i px py a b r)\<lparr>vy := b'\<rparr> = mkBall i px py a b' r"
  by (simp_all add: mkBall_def)

lemma edge_normal: "wallNormal edgeWorld edgeP1 edgeP2 = \<lparr>x = 0, y = - 1\<rparr>"
  by (simp add: wallNormal_def normalize_v_def length_v_def sub_def add_def mult_def dot_def
      Let_def edgeWorld_def edgeP1_def edgeP2_def)

lemma edge_dist: "wallDist edgeWorld edgeP1 edgeP2 (mkBall i px py a b r) = 5 - py"
  by (simp add: wallDist_def edge_normal sub_def dot_def mkBall_sel) (simp add: edgeP1_def)

lemma edge_push:
  "wallPush edgeWorld edgeP1 edgeP2 (mkBall i px py a b r) = mkBall i px (5 - r) a b r"
  by (simp add: wallPush_def edge_normal edge_dist Let_def mkBall_sel mkBall_upd)

lemma edge_wallV: "wallV edgeWorld (mkBall i 3 0 a b r) = \<lparr>x = 0, y = 9 / 25\<rparr>"
  by (simp add: wallV_def edgeWorld_def mkBall_sel sub_def length_v_def atan2_def
      ROTATION_SPEED_def Let_def)

lemma edge_vRelDotN:
  "dot (wallVRel edgeWorld (mkBall i 3 0 a b r)) (wallNormal edgeWorld edgeP1 edgeP2) = 9 / 25 - b"
  by (simp add: edge_normal wallVRel_def edge_wallV sub_def dot_def mkBall_sel)

lemma pair_dist: "ballDist (mkBall i 0 0 a b r) (mkBall j 15 0 c d r') = 15"
  by (simp add: ballDist_def length_v_def sub_def mkBall_sel)

lemma pair_normal: "ballNormal (mkBall i 0 0 a b r) (mkBall j 15 0 c d r') = \<lparr>x = 1, y = 0\<rparr>"
  by (simp add: ballNormal_def normalize_v_def length_v_def sub_def mkBall_sel)

lemma pair_vn: "ballVn \<lparr>x = 1, y = 0\<rparr> (mkBall i px py a b r) (mkBall j qx qy c d r') = a - c"
  by (simp add: ballVn_def sub_def dot_def mkBall_sel)

lemma pair_separate:
  "ballSeparate (mkBall i 0 0 a b 10) (mkBall j 15 0 c d 10) =
     (mkBall i (- (5 / 2)) 0 a b 10, mkBall j (35 / 2) 0 c d 10)"
  by (simp add: ballSeparate_def pair_dist pair_normal mult_def Let_def mkBall_sel mkBall_upd)

lemma pair_impulse:
  "ballImpulse \<lparr>x = 1, y = 0\<rparr> (mkBall i px py a b r) (mkBall j qx qy c d r') =
     (if 0 < a - c then (mkBall i px py a b r, mkBall j qx qy c d r')
      else (mkBall i px py (a - 9 / 10 * (a - c)) b r, mkBall j qx qy (c + 9 / 10 * (a - c)) d r'))"
  by (simp add: ballImpulse_def pair_vn mult_def Let_def mkBall_sel mkBall_upd)

lemma pair_collision:
  "ballCollision (mkBall i 0 0 a b 10) (mkBall j 15 0 c d 10) =
     (if 0 < a - c then (mkBall i (- (5 / 2)) 0 a b 10, mkBall j (35 / 2) 0 c d 10)
      else (mkBall i (- (5 / 2)) 0 (a - 9 / 10 * (a - c)) b 10,
            mkBall j (35 / 2) 0 (c + 9 / 10 * (a - c)) d 10))"
  by (simp add: ballCollision_def pair_dist pair_normal pair_separate pair_impulse mkBall_sel)

section \<open>Wall collision resolver\<close>

lemma wallNormal_degenerate:
  "length_v (sub p2 p1) = 0 \<Longrightarrow> wallNormal w p1 p2 = \<lparr>x = 0, y = 0\<rparr>"
  by (simp add: wallNormal_def normalize_v_degenerate dot_def Let_def)

lemma wallNormal_sq:
  "dot (wallNormal w p1 p2) (wallNormal w p1 p2) = (if length_v (sub p2 p1) = 0 then 0 else 1)"
proof (cases "length_v (sub p2 p1) = 0")
  case True
  then show ?thesis
    by (simp add: wallNormal_degenerate dot_zero_left)
next
  case False
  from normalize_v_unit [OF this]
  have "x (normalize_v (sub p2 p1)) * x (normalize_v (sub p2 p1))
      + y (normalize_v (sub p2 p1)) * y (normalize_v (sub p2 p1)) = 1"
    by (simp add: dot_def)
  with False show ?thesis
    by (simp add: wallNormal_def dot_def Let_def add.commute)
qed

lemma wall_impulse_normal_unit:
  assumes "dot v (wallNormal w p1 p2) < 0"
  shows "dot (wallNormal w p1 p2) (wallNormal w p1 p2) = 1"
proof (cases "length_v (sub p2 p1) = 0")
  case True
  with assms show ?thesis by (simp add: wallNormal_degenerate dot_zero_right)
next
  case False
  then show ?thesis by (simp add: wallNormal_sq)
qed

lemma wallPush_sel [simp]:
  "vx (wallPush w p1 p2 ball) = vx ball"
  "vy (wallPush w p1 p2 ball) = vy ball"
  "radius (wallPush w p1 p2 ball) = radius ball"
  "x (wallPush w p1 p2 ball)
     = x ball + x (wallNormal w p1 p2) * (radius ball - wallDist w p1 p2 ball)"
  "y (wallPush w p1 p2 ball)
     = y ball + y (wallNormal w p1 p2) * (radius ball - wallDist w p1 p2 ball)"
  by (simp_all add: wallPush_def Let_def)

lemma wallReflect_sel [simp]:
  "x (wallReflect w n ball) = x ball"
  "y (wallReflect w n ball) = y ball"
  "radius (wallReflect w n ball) = radius ball"
  by (simp_all add: wallReflect_def Let_def)

lemma wallV_cong: "x b = x b' \<Longrightarrow> y b = y b' \<Longrightarrow> wallV w b = wallV w b'"
  by (simp add: wallV_def sub_def)

lemma wallReflect_inert: "0 \<le> dot (wallVRel w ball) n \<Longrightarrow> wallReflect w n ball = ball"
  by (simp add: wallReflect_def Let_def)

lemma wallReflect_vRel:
  assumes "dot (wallVRel w ball) n < 0"
  shows "wallVRel w (wallReflect w n ball)
    = add (wallVRel w ball) (mult n (- (1 + WALL_BOUNCE) * dot (wallVRel w ball) n))"
proof -
  have "wallV w (wallReflect w n ball) = wallV w ball"
    by (rule wallV_cong) simp_all
  then show ?thesis using assms
    by (simp add: wallVRel_def wallReflect_def Let_def sub_def add_def mult_def)
qed

lemma wallReflect_normal_speed:
  assumes "dot (wallVRel w ball) n < 0" and "dot n n = 1"
  shows "dot (wallVRel w (wallReflect w n ball)) n = - WALL_BOUNCE * dot (wallVRel w ball) n"
proof -
  have "dot (add v (mult n s)) n = dot v n + s * dot n n" for v :: Vector and s
    by (simp add: dot_def add_def mult_def algebra_simps)
  then show ?thesis using assms by (simp add: wallReflect_vRel algebra_simps)
qed

text \<open>
  C7. A ball whose signed distance from the line of an edge equals its radius is not in
  contact with that edge: the resolver returns the ball as it was, position and velocity
  (whatever the velocity is, so for a ball at rest too).
\<close>

theorem wall_tangent_no_contact:
  "wallDist w p1 p2 ball = radius ball \<Longrightarrow> wallCollision w p1 p2 ball = ball"
  by (simp add: wallCollision_def)

theorem wall_tangent_no_contact_witness:
  "wallDist edgeWorld edgeP1 edgeP2 (mkBall 1 3 0 0 0 5) = radius (mkBall 1 3 0 0 0 5) \<and>
   wallCollision edgeWorld edgeP1 edgeP2 (mkBall 1 3 0 0 0 5) = mkBall 1 3 0 0 0 5"
proof -
  have h: "wallDist edgeWorld edgeP1 edgeP2 (mkBall 1 3 0 0 0 5) = radius (mkBall 1 3 0 0 0 5)"
    by (simp add: edge_dist mkBall_sel)
  from h wall_tangent_no_contact [OF h] show ?thesis by simp
qed

section \<open>Body collision resolver\<close>

lemma ballDist_zero_iff: "ballDist b1 b2 = 0 \<longleftrightarrow> x b1 = x b2 \<and> y b1 = y b2"
  by (auto simp add: ballDist_def length_v_zero_iff sub_def)

lemma ballDist_coincident: "x b1 = x b2 \<Longrightarrow> y b1 = y b2 \<Longrightarrow> ballDist b1 b2 = 0"
  by (simp add: ballDist_zero_iff)

lemma ballNormal_coincident:
  "x b1 = x b2 \<Longrightarrow> y b1 = y b2 \<Longrightarrow> ballNormal b1 b2 = \<lparr>x = 0, y = 0\<rparr>"
  by (simp add: ballNormal_def normalize_v_def sub_def length_v_def)

lemma ballNormal_sq:
  "dot (ballNormal ball other) (ballNormal ball other) = (if ballDist ball other = 0 then 0 else 1)"
  by (simp add: ballNormal_def ballDist_def normalize_v_unit normalize_v_degenerate dot_zero_left)

lemma ballNormal_components:
  "ballDist b1 b2 \<noteq> 0 \<Longrightarrow> x (ballNormal b1 b2) = (x b2 - x b1) / ballDist b1 b2"
  "ballDist b1 b2 \<noteq> 0 \<Longrightarrow> y (ballNormal b1 b2) = (y b2 - y b1) / ballDist b1 b2"
  by (simp_all add: ballNormal_def ballDist_def normalize_v_def Let_def) (simp_all add: sub_def)

lemma ballSeparate_sel [simp]:
  "vx (fst (ballSeparate ball other)) = vx ball"
  "vy (fst (ballSeparate ball other)) = vy ball"
  "vx (snd (ballSeparate ball other)) = vx other"
  "vy (snd (ballSeparate ball other)) = vy other"
  "radius (fst (ballSeparate ball other)) = radius ball"
  "radius (snd (ballSeparate ball other)) = radius other"
  by (simp_all add: ballSeparate_def Let_def)

lemma ballVn_cong:
  "vx b = vx b' \<Longrightarrow> vy b = vy b' \<Longrightarrow> vx ot = vx ot' \<Longrightarrow> vy ot = vy ot'
     \<Longrightarrow> ballVn n b ot = ballVn n b' ot'"
  by (simp add: ballVn_def)

lemma ballVn_separate [simp]:
  "ballVn n (fst (ballSeparate ball other)) (snd (ballSeparate ball other)) = ballVn n ball other"
  by (rule ballVn_cong) simp_all

lemma ballVn_degenerate:
  "ballDist ball other = 0 \<Longrightarrow> ballVn (ballNormal ball other) b ot = 0"
  by (simp add: ballNormal_def ballDist_def normalize_v_degenerate ballVn_def dot_zero_right)

lemma ballCollision_contact:
  "ballDist ball other < radius ball + radius other \<Longrightarrow>
     ballCollision ball other
       = ballImpulse (ballNormal ball other) (fst (ballSeparate ball other))
           (snd (ballSeparate ball other))"
  by (simp add: ballCollision_def split_beta)

lemma ballImpulse_vn:
  "ballVn n ball other \<le> 0 \<Longrightarrow>
   ballVn n (fst (ballImpulse n ball other)) (snd (ballImpulse n ball other)) =
     ballVn n ball other - (18 / 10) * ballVn n ball other * dot n n"
  by (simp add: ballImpulse_def ballVn_def Let_def dot_def sub_def mult_def) algebra

text \<open>
  C10, amended. Two balls whose centres coincide are at distance \<open>0\<close>, which is below the
  sum of the radii when that sum is positive, so the contact branch is taken; the normal
  is the zero vector of the \<open>normalize\<close> fallback, and this resolution of the pair returns
  both balls as they were: it changes no position and no velocity, and right after it the
  centres are still at distance \<open>0\<close>. Nothing is said of the rest of the sub-step.
\<close>

theorem coincident_centers_noop:
  "x b1 = x b2 \<Longrightarrow> y b1 = y b2 \<Longrightarrow> 0 < radius b1 + radius b2 \<Longrightarrow>
     ballDist b1 b2 < radius b1 + radius b2 \<and>
     ballNormal b1 b2 = \<lparr>x = 0, y = 0\<rparr> \<and>
     ballCollision b1 b2 = (b1, b2) \<and>
     ballDist (fst (ballCollision b1 b2)) (snd (ballCollision b1 b2)) = 0"
  by (simp add: ballDist_coincident ballNormal_coincident ballCollision_def ballSeparate_def
        ballImpulse_def ballVn_def mult_def dot_def Let_def)

theorem coincident_centers_noop_witness:
  "x (mkBall 1 3 4 1 2 10) = x (mkBall 2 3 4 (- 3) (1 / 2) 12) \<and>
   y (mkBall 1 3 4 1 2 10) = y (mkBall 2 3 4 (- 3) (1 / 2) 12) \<and>
   0 < radius (mkBall 1 3 4 1 2 10) + radius (mkBall 2 3 4 (- 3) (1 / 2) 12) \<and>
   ballCollision (mkBall 1 3 4 1 2 10) (mkBall 2 3 4 (- 3) (1 / 2) 12)
     = (mkBall 1 3 4 1 2 10, mkBall 2 3 4 (- 3) (1 / 2) 12)"
  using coincident_centers_noop [of "mkBall 1 3 4 1 2 10" "mkBall 2 3 4 (- 3) (1 / 2) 12"]
  by (simp add: mkBall_sel)

text \<open>
  C3. When two balls are in contact and the impulse branch is taken (\<open>vn\<close> is not
  positive), the sum of the two velocity vectors after the resolution is the sum before.
  The code never reads the field \<open>mass\<close>, so no hypothesis on the masses is needed.
\<close>

theorem ball_impulse_momentum:
  "ballDist ball other < radius ball + radius other \<Longrightarrow>
   ballVn (ballNormal ball other) ball other \<le> 0 \<Longrightarrow>
     vx (fst (ballCollision ball other)) + vx (snd (ballCollision ball other))
       = vx ball + vx other \<and>
     vy (fst (ballCollision ball other)) + vy (snd (ballCollision ball other))
       = vy ball + vy other"
  by (simp add: ballCollision_def ballSeparate_def ballImpulse_def ballVn_def Let_def)

theorem ball_impulse_momentum_witness:
  "ballDist (mkBall 1 0 0 (- 5) 1 10) (mkBall 2 15 0 3 2 10)
     < radius (mkBall 1 0 0 (- 5) 1 10) + radius (mkBall 2 15 0 3 2 10) \<and>
   ballVn (ballNormal (mkBall 1 0 0 (- 5) 1 10) (mkBall 2 15 0 3 2 10))
     (mkBall 1 0 0 (- 5) 1 10) (mkBall 2 15 0 3 2 10) \<le> 0 \<and>
   ballCollision (mkBall 1 0 0 (- 5) 1 10) (mkBall 2 15 0 3 2 10)
     = (mkBall 1 (- (5 / 2)) 0 (11 / 5) 1 10, mkBall 2 (35 / 2) 0 (- (21 / 5)) 2 10) \<and>
   vx (fst (ballCollision (mkBall 1 0 0 (- 5) 1 10) (mkBall 2 15 0 3 2 10)))
     + vx (snd (ballCollision (mkBall 1 0 0 (- 5) 1 10) (mkBall 2 15 0 3 2 10))) = - 5 + 3"
proof -
  have h1: "ballDist (mkBall 1 0 0 (- 5) 1 10) (mkBall 2 15 0 3 2 10)
     < radius (mkBall 1 0 0 (- 5) 1 10) + radius (mkBall 2 15 0 3 2 10)"
    by (simp add: pair_dist mkBall_sel)
  have h2: "ballVn (ballNormal (mkBall 1 0 0 (- 5) 1 10) (mkBall 2 15 0 3 2 10))
     (mkBall 1 0 0 (- 5) 1 10) (mkBall 2 15 0 3 2 10) \<le> 0"
    by (simp add: pair_normal pair_vn)
  have c: "ballCollision (mkBall 1 0 0 (- 5) 1 10) (mkBall 2 15 0 3 2 10)
     = (mkBall 1 (- (5 / 2)) 0 (11 / 5) 1 10, mkBall 2 (35 / 2) 0 (- (21 / 5)) 2 10)"
    by (simp add: pair_collision)
  from ball_impulse_momentum [OF h1 h2] h1 h2 c show ?thesis
    by (simp add: mkBall_sel)
qed

text \<open>
  An edge contact whose relative velocity (lines 212-213: velocity of the ball minus the
  velocity given to the wall, at the corrected position) has a component along the inward
  normal that is not negative changes no velocity; the result is the pushed ball.
\<close>

lemma wall_contact_inert:
  assumes "wallDist w p1 p2 ball < radius ball"
    and "0 \<le> dot (wallVRel w (wallPush w p1 p2 ball)) (wallNormal w p1 p2)"
  shows "wallCollision w p1 p2 ball = wallPush w p1 p2 ball"
    and "vx (wallCollision w p1 p2 ball) = vx ball"
    and "vy (wallCollision w p1 p2 ball) = vy ball"
proof -
  from assms show c: "wallCollision w p1 p2 ball = wallPush w p1 p2 ball"
    by (simp add: wallCollision_def wallReflect_inert)
  show "vx (wallCollision w p1 p2 ball) = vx ball" "vy (wallCollision w p1 p2 ball) = vy ball"
    unfolding c by simp_all
qed

text \<open>
  For a pair, the number \<open>vn\<close> of lines 248-249 is the velocity of \<open>ball\<close> minus the
  velocity of \<open>other\<close>, along the unit vector from \<open>ball\<close> to \<open>other\<close>. When it is not
  negative the result is the separated pair, with no velocity changed. By \<open>ballVn_sign\<close>
  below, such a pair is one whose centres approach each other or keep their distance.
\<close>

lemma pair_nonnegative_vn_inert:
  assumes "ballDist b1 b2 < radius b1 + radius b2"
    and "0 \<le> ballVn (ballNormal b1 b2) b1 b2"
  shows "ballCollision b1 b2 = ballSeparate b1 b2"
proof -
  have "ballImpulse (ballNormal b1 b2) b ot = (b, ot)"
    if "ballVn (ballNormal b1 b2) b ot = ballVn (ballNormal b1 b2) b1 b2" for b ot
  proof (cases "0 < ballVn (ballNormal b1 b2) b1 b2")
    case True
    with that show ?thesis by (simp add: ballImpulse_def)
  next
    case False
    with assms have "ballVn (ballNormal b1 b2) b1 b2 = 0" by simp
    with that show ?thesis by (simp add: ballImpulse_def mult_def)
  qed
  from this [of "fst (ballSeparate b1 b2)" "snd (ballSeparate b1 b2)"] assms
  show ?thesis by (simp add: ballCollision_contact)
qed

text \<open>
  C4. Whenever the velocity impulse is applied, the speed of the relative velocity along
  the contact normal after the impulse is at most the restitution coefficient times that
  speed before it: \<open>WALL_BOUNCE\<close> for an edge, \<open>0.8\<close> for a pair of balls.
\<close>

theorem restitution_bounds_normal_speed:
  "(wallDist w p1 p2 ball < radius ball \<and>
    dot (wallVRel w (wallPush w p1 p2 ball)) (wallNormal w p1 p2) < 0 \<longrightarrow>
      \<bar>dot (wallVRel w (wallCollision w p1 p2 ball)) (wallNormal w p1 p2)\<bar>
        \<le> WALL_BOUNCE * \<bar>dot (wallVRel w (wallPush w p1 p2 ball)) (wallNormal w p1 p2)\<bar>) \<and>
   (ballDist b1 b2 < radius b1 + radius b2 \<and> ballVn (ballNormal b1 b2) b1 b2 \<le> 0 \<longrightarrow>
      \<bar>ballVn (ballNormal b1 b2) (fst (ballCollision b1 b2)) (snd (ballCollision b1 b2))\<bar>
        \<le> (8 / 10) * \<bar>ballVn (ballNormal b1 b2) b1 b2\<bar>)"
proof (intro conjI impI)
  assume h: "wallDist w p1 p2 ball < radius ball \<and>
    dot (wallVRel w (wallPush w p1 p2 ball)) (wallNormal w p1 p2) < 0"
  then have u: "dot (wallNormal w p1 p2) (wallNormal w p1 p2) = 1"
    using wall_impulse_normal_unit by blast
  from h have "dot (wallVRel w (wallCollision w p1 p2 ball)) (wallNormal w p1 p2)
      = - WALL_BOUNCE * dot (wallVRel w (wallPush w p1 p2 ball)) (wallNormal w p1 p2)"
    by (simp add: wallCollision_def wallReflect_normal_speed [OF _ u])
  then show "\<bar>dot (wallVRel w (wallCollision w p1 p2 ball)) (wallNormal w p1 p2)\<bar>
        \<le> WALL_BOUNCE * \<bar>dot (wallVRel w (wallPush w p1 p2 ball)) (wallNormal w p1 p2)\<bar>"
    by (simp add: abs_mult WALL_BOUNCE_def)
next
  assume h: "ballDist b1 b2 < radius b1 + radius b2 \<and> ballVn (ballNormal b1 b2) b1 b2 \<le> 0"
  let ?n = "ballNormal b1 b2"
  from h have e: "ballVn ?n (fst (ballCollision b1 b2)) (snd (ballCollision b1 b2))
      = ballVn ?n b1 b2 - (18 / 10) * ballVn ?n b1 b2 * dot ?n ?n"
    by (simp add: ballCollision_contact ballImpulse_vn)
  show "\<bar>ballVn ?n (fst (ballCollision b1 b2)) (snd (ballCollision b1 b2))\<bar>
      \<le> (8 / 10) * \<bar>ballVn ?n b1 b2\<bar>"
  proof (cases "ballDist b1 b2 = 0")
    case True
    then show ?thesis by (simp add: ballVn_degenerate)
  next
    case False
    then have "dot ?n ?n = 1" by (simp add: ballNormal_sq)
    with e have "ballVn ?n (fst (ballCollision b1 b2)) (snd (ballCollision b1 b2))
        = - (8 / 10) * ballVn ?n b1 b2"
      by simp
    then show ?thesis by (simp add: abs_mult)
  qed
qed

theorem restitution_bounds_normal_speed_witness:
  "(wallDist edgeWorld edgeP1 edgeP2 (mkBall 1 3 2 0 2 5) < radius (mkBall 1 3 2 0 2 5) \<and>
    dot (wallVRel edgeWorld (wallPush edgeWorld edgeP1 edgeP2 (mkBall 1 3 2 0 2 5)))
        (wallNormal edgeWorld edgeP1 edgeP2) < 0) \<and>
   \<bar>dot (wallVRel edgeWorld (wallCollision edgeWorld edgeP1 edgeP2 (mkBall 1 3 2 0 2 5)))
        (wallNormal edgeWorld edgeP1 edgeP2)\<bar> \<le> WALL_BOUNCE * (41 / 25) \<and>
   (ballDist (mkBall 1 0 0 (- 5) 1 10) (mkBall 2 15 0 3 2 10)
      < radius (mkBall 1 0 0 (- 5) 1 10) + radius (mkBall 2 15 0 3 2 10) \<and>
    ballVn (ballNormal (mkBall 1 0 0 (- 5) 1 10) (mkBall 2 15 0 3 2 10))
      (mkBall 1 0 0 (- 5) 1 10) (mkBall 2 15 0 3 2 10) \<le> 0) \<and>
   \<bar>ballVn (ballNormal (mkBall 1 0 0 (- 5) 1 10) (mkBall 2 15 0 3 2 10))
      (fst (ballCollision (mkBall 1 0 0 (- 5) 1 10) (mkBall 2 15 0 3 2 10)))
      (snd (ballCollision (mkBall 1 0 0 (- 5) 1 10) (mkBall 2 15 0 3 2 10)))\<bar> \<le> (8 / 10) * 8"
proof -
  have p: "wallPush edgeWorld edgeP1 edgeP2 (mkBall 1 3 2 0 2 5) = mkBall 1 3 0 0 2 5"
    by (simp add: edge_push)
  have v: "dot (wallVRel edgeWorld (wallPush edgeWorld edgeP1 edgeP2 (mkBall 1 3 2 0 2 5)))
        (wallNormal edgeWorld edgeP1 edgeP2) = - (41 / 25)"
    unfolding p by (simp add: edge_vRelDotN)
  have h1: "wallDist edgeWorld edgeP1 edgeP2 (mkBall 1 3 2 0 2 5) < radius (mkBall 1 3 2 0 2 5) \<and>
    dot (wallVRel edgeWorld (wallPush edgeWorld edgeP1 edgeP2 (mkBall 1 3 2 0 2 5)))
        (wallNormal edgeWorld edgeP1 edgeP2) < 0"
    unfolding v by (simp add: edge_dist mkBall_sel)
  have n: "ballVn (ballNormal (mkBall 1 0 0 (- 5) 1 10) (mkBall 2 15 0 3 2 10))
      (mkBall 1 0 0 (- 5) 1 10) (mkBall 2 15 0 3 2 10) = - 8"
    by (simp add: pair_normal pair_vn)
  have h2: "ballDist (mkBall 1 0 0 (- 5) 1 10) (mkBall 2 15 0 3 2 10)
      < radius (mkBall 1 0 0 (- 5) 1 10) + radius (mkBall 2 15 0 3 2 10) \<and>
    ballVn (ballNormal (mkBall 1 0 0 (- 5) 1 10) (mkBall 2 15 0 3 2 10))
      (mkBall 1 0 0 (- 5) 1 10) (mkBall 2 15 0 3 2 10) \<le> 0"
    unfolding n by (simp add: pair_dist mkBall_sel)
  from restitution_bounds_normal_speed
         [of edgeWorld edgeP1 edgeP2 "mkBall 1 3 2 0 2 5" "mkBall 1 0 0 (- 5) 1 10"
             "mkBall 2 15 0 3 2 10"] h1 h2
  show ?thesis unfolding v n by simp
qed

lemma pair_back:
  "ballCollision (mkBall j (35 / 2) 0 c d 10) (mkBall i (- (5 / 2)) 0 a b 10)
     = (mkBall j (35 / 2) 0 c d 10, mkBall i (- (5 / 2)) 0 a b 10)"
  by (simp add: ballCollision_def ballDist_def length_v_def sub_def mkBall_sel)

text \<open>
  C1. The scenario: radius \<open>10\<close>, mass \<open>1\<close>, centres \<open>(0, 0)\<close> and \<open>(15, 0)\<close>, velocities
  \<open>(5, 0)\<close> and \<open>(-5, 0)\<close>. The code computes \<open>vn = 10\<close>, which is positive, so line 251
  takes the \<open>continue\<close> and no impulse is applied: after the inner loop has run for both
  balls the centres are at \<open>(-2.5, 0)\<close> and \<open>(17.5, 0)\<close>, at distance \<open>20\<close>, and the
  velocities are still \<open>(5, 0)\<close> and \<open>(-5, 0)\<close>, not \<open>(-4, 0)\<close> and \<open>(4, 0)\<close>.
\<close>

theorem head_on_pair_keeps_velocities:
  "ballVn (ballNormal (mkBall 1 0 0 5 0 10) (mkBall 2 15 0 (- 5) 0 10))
     (mkBall 1 0 0 5 0 10) (mkBall 2 15 0 (- 5) 0 10) = 10 \<and>
   ballCollision (mkBall 1 0 0 5 0 10) (mkBall 2 15 0 (- 5) 0 10)
     = (mkBall 1 (- (5 / 2)) 0 5 0 10, mkBall 2 (35 / 2) 0 (- 5) 0 10) \<and>
   ballCollisions 1 [0..<2] (ballCollisions 0 [0..<2] [mkBall 1 0 0 5 0 10, mkBall 2 15 0 (- 5) 0 10])
     = [mkBall 1 (- (5 / 2)) 0 5 0 10, mkBall 2 (35 / 2) 0 (- 5) 0 10]"
proof -
  have u: "[0..<2] = [0, Suc 0]" by (simp add: upt_rec)
  have 1: "ballCollisions 0 [0, Suc 0] [mkBall 1 0 0 5 0 10, mkBall 2 15 0 (- 5) 0 10]
      = [mkBall 1 (- (5 / 2)) 0 5 0 10, mkBall 2 (35 / 2) 0 (- 5) 0 10]"
    by (simp add: pair_collision mkBall_sel)
  have 2: "ballCollisions 1 [0, Suc 0] [mkBall 1 (- (5 / 2)) 0 5 0 10, mkBall 2 (35 / 2) 0 (- 5) 0 10]
      = [mkBall 1 (- (5 / 2)) 0 5 0 10, mkBall 2 (35 / 2) 0 (- 5) 0 10]"
    by (simp add: pair_back mkBall_sel)
  show ?thesis unfolding u 1 2 by (simp add: pair_normal pair_vn pair_collision)
qed

text \<open>
  The sign of \<open>vn\<close>: times the distance of the centres, it is minus the scalar product of
  the relative position and the relative velocity of \<open>other\<close> with respect to \<open>ball\<close>. So
  for distinct centres \<open>vn\<close> is negative exactly when the centres move apart, and line 251
  skips the impulse for the pairs that approach each other.
\<close>

lemma ballVn_sign:
  "ballVn (ballNormal b1 b2) b1 b2 * ballDist b1 b2
     = - ((x b2 - x b1) * (vx b2 - vx b1) + (y b2 - y b1) * (vy b2 - vy b1))"
proof (cases "ballDist b1 b2 = 0")
  case True
  then have "x b1 = x b2" "y b1 = y b2" by (simp_all add: ballDist_zero_iff)
  with True show ?thesis by simp
next
  case False
  have "ballVn (ballNormal b1 b2) b1 b2
      = ((vx b1 - vx b2) * (x b2 - x b1) + (vy b1 - vy b2) * (y b2 - y b1)) / ballDist b1 b2"
    by (simp add: ballVn_def dot_def sub_def ballNormal_components [OF False] add_divide_distrib)
  then have "ballVn (ballNormal b1 b2) b1 b2 * ballDist b1 b2
      = (vx b1 - vx b2) * (x b2 - x b1) + (vy b1 - vy b2) * (y b2 - y b1)"
    using False by simp
  also have "\<dots> = - ((x b2 - x b1) * (vx b2 - vx b1) + (y b2 - y b1) * (vy b2 - vy b1))"
    by algebra
  finally show ?thesis .
qed

text \<open>
  C2. For a pair of balls the code does not leave a separating contact inert. The
  head-on pair with the velocities exchanged, \<open>(-5, 0)\<close> and \<open>(5, 0)\<close>, is in contact and
  moves apart: the velocity of \<open>other\<close> with respect to \<open>ball\<close> has the component \<open>10\<close> along the
  normal from \<open>ball\<close> to \<open>other\<close>. The code computes \<open>vn = -10\<close>, takes the impulse
  branch, and the velocities become \<open>(4, 0)\<close> and \<open>(-4, 0)\<close>.
\<close>

theorem moving_apart_pair_gets_impulse:
  "ballDist (mkBall 1 0 0 (- 5) 0 10) (mkBall 2 15 0 5 0 10)
     < radius (mkBall 1 0 0 (- 5) 0 10) + radius (mkBall 2 15 0 5 0 10) \<and>
   dot (sub \<lparr>x = vx (mkBall 2 15 0 5 0 10), y = vy (mkBall 2 15 0 5 0 10)\<rparr>
            \<lparr>x = vx (mkBall 1 0 0 (- 5) 0 10), y = vy (mkBall 1 0 0 (- 5) 0 10)\<rparr>)
       (ballNormal (mkBall 1 0 0 (- 5) 0 10) (mkBall 2 15 0 5 0 10)) = 10 \<and>
   ballVn (ballNormal (mkBall 1 0 0 (- 5) 0 10) (mkBall 2 15 0 5 0 10))
     (mkBall 1 0 0 (- 5) 0 10) (mkBall 2 15 0 5 0 10) = - 10 \<and>
   ballCollision (mkBall 1 0 0 (- 5) 0 10) (mkBall 2 15 0 5 0 10)
     = (mkBall 1 (- (5 / 2)) 0 4 0 10, mkBall 2 (35 / 2) 0 (- 4) 0 10)"
  by (simp add: pair_dist pair_normal pair_vn pair_collision mkBall_sel sub_def dot_def)

section \<open>Position correction\<close>

lemma wallDist_cong: "x b = x b' \<Longrightarrow> y b = y b' \<Longrightarrow> wallDist w p1 p2 b = wallDist w p1 p2 b'"
  by (simp add: wallDist_def)

lemma wallDist_collision:
  "wallDist w p1 p2 ball < radius ball \<Longrightarrow>
     wallDist w p1 p2 (wallCollision w p1 p2 ball) = wallDist w p1 p2 (wallPush w p1 p2 ball)"
  by (simp add: wallCollision_def) (rule wallDist_cong, simp_all)

lemma wallDist_push:
  "wallDist w p1 p2 (wallPush w p1 p2 ball)
     = wallDist w p1 p2 ball
       + (radius ball - wallDist w p1 p2 ball) * dot (wallNormal w p1 p2) (wallNormal w p1 p2)"
  by (simp add: wallDist_def[of w p1 p2 "wallPush w p1 p2 ball"] Let_def sub_def dot_def algebra_simps)
     (simp add: wallDist_def sub_def dot_def algebra_simps)

lemma edge_length_nonzero: "p1 \<noteq> p2 \<Longrightarrow> length_v (sub p2 p1) \<noteq> 0" for p1 p2 :: Vector
  by (simp add: length_v_zero_iff sub_def) (metis Vector.equality old.unit.exhaust)

lemma wall_corrected_dist:
  "p1 \<noteq> p2 \<Longrightarrow> wallDist w p1 p2 ball < radius ball \<Longrightarrow>
     wallDist w p1 p2 (wallCollision w p1 p2 ball) = radius ball"
  by (simp add: wallDist_collision wallDist_push wallNormal_sq edge_length_nonzero)

lemma ballDist_cong:
  "x b = x b' \<Longrightarrow> y b = y b' \<Longrightarrow> x ot = x ot' \<Longrightarrow> y ot = y ot' \<Longrightarrow> ballDist b ot = ballDist b' ot'"
  by (simp add: ballDist_def sub_def)

lemma ballImpulse_pos [simp]:
  "x (fst (ballImpulse n b ot)) = x b" "y (fst (ballImpulse n b ot)) = y b"
  "x (snd (ballImpulse n b ot)) = x ot" "y (snd (ballImpulse n b ot)) = y ot"
  by (simp_all add: ballImpulse_def Let_def)

lemma ballDist_collision:
  "ballDist b1 b2 < radius b1 + radius b2 \<Longrightarrow>
     ballDist (fst (ballCollision b1 b2)) (snd (ballCollision b1 b2))
       = ballDist (fst (ballSeparate b1 b2)) (snd (ballSeparate b1 b2))"
  by (simp add: ballCollision_contact) (rule ballDist_cong, simp_all)

lemma ballSeparate_pos:
  "x (fst (ballSeparate b1 b2))
     = x b1 - x (ballNormal b1 b2) * ((radius b1 + radius b2 - ballDist b1 b2) * (1 / 2))"
  "y (fst (ballSeparate b1 b2))
     = y b1 - y (ballNormal b1 b2) * ((radius b1 + radius b2 - ballDist b1 b2) * (1 / 2))"
  "x (snd (ballSeparate b1 b2))
     = x b2 + x (ballNormal b1 b2) * ((radius b1 + radius b2 - ballDist b1 b2) * (1 / 2))"
  "y (snd (ballSeparate b1 b2))
     = y b2 + y (ballNormal b1 b2) * ((radius b1 + radius b2 - ballDist b1 b2) * (1 / 2))"
  by (simp_all add: ballSeparate_def Let_def mult_def)

lemma ballDist_separate:
  assumes "0 < ballDist b1 b2" and "ballDist b1 b2 < radius b1 + radius b2"
  shows "ballDist (fst (ballSeparate b1 b2)) (snd (ballSeparate b1 b2)) = radius b1 + radius b2"
proof -
  define d where "d = ballDist b1 b2"
  define k where "k = 1 + (radius b1 + radius b2 - d) / d"
  have d: "0 < d" "d < radius b1 + radius b2" using assms by (simp_all add: d_def)
  then have k: "0 < k" by (simp add: k_def add_pos_pos)
  have nx: "x (ballNormal b1 b2) = (x b2 - x b1) / d" and ny: "y (ballNormal b1 b2) = (y b2 - y b1) / d"
    using d by (simp_all add: ballNormal_components d_def)
  have sx: "x (snd (ballSeparate b1 b2)) - x (fst (ballSeparate b1 b2)) = (x b2 - x b1) * k"
    unfolding ballSeparate_pos nx d_def[symmetric] k_def using d by (simp add: field_simps)
  have sy: "y (snd (ballSeparate b1 b2)) - y (fst (ballSeparate b1 b2)) = (y b2 - y b1) * k"
    unfolding ballSeparate_pos ny d_def[symmetric] k_def using d by (simp add: field_simps)
  have dd: "sqrt ((x b2 - x b1) * (x b2 - x b1) + (y b2 - y b1) * (y b2 - y b1)) = d"
    by (simp add: d_def ballDist_def length_v_def sub_def)
  have "ballDist (fst (ballSeparate b1 b2)) (snd (ballSeparate b1 b2))
      = sqrt (((x b2 - x b1) * k) * ((x b2 - x b1) * k) + ((y b2 - y b1) * k) * ((y b2 - y b1) * k))"
    unfolding sx[symmetric] sy[symmetric] by (simp add: ballDist_def length_v_def sub_def)
  also have "\<dots> = sqrt ((k * k) * ((x b2 - x b1) * (x b2 - x b1) + (y b2 - y b1) * (y b2 - y b1)))"
    by (rule arg_cong [where f = sqrt]) (simp add: algebra_simps)
  also have "\<dots> = k * d"
    using k unfolding real_sqrt_mult dd by simp
  also have "\<dots> = radius b1 + radius b2"
    using d by (simp add: k_def field_simps)
  finally show ?thesis .
qed

lemma calcVertices_nth:
  "i < HEPTAGON_SIDES \<Longrightarrow>
     calcVertices w rot ! i =
       \<lparr>x = centerX w + heptagonRadius w * cos (rot + (real i * 2 * pi) / real HEPTAGON_SIDES),
        y = centerY w + heptagonRadius w * sin (rot + (real i * 2 * pi) / real HEPTAGON_SIDES)\<rparr>"
  by (simp add: calcVertices_def Let_def)

lemma length_calcVertices: "length (calcVertices w rot) = HEPTAGON_SIDES"
  by (simp add: calcVertices_def)

lemma cos_seventh: "cos (2 * pi / 7) < 1"
  using cos_monotone_0_pi [of 0 "2 * pi / 7"] by simp

lemma unit_circle_distinct:
  fixes a b :: real
  assumes "cos (b - a) < 1"
  shows "cos a \<noteq> cos b \<or> sin a \<noteq> sin b"
proof (rule ccontr)
  assume "\<not> (cos a \<noteq> cos b \<or> sin a \<noteq> sin b)"
  then have "cos (b - a) = cos b * cos b + sin b * sin b"
    by (simp add: cos_diff)
  then have "cos (b - a) = 1"
    by (simp add: power2_eq_square [symmetric])
  with assms show False by simp
qed

lemma heptagon_edges_proper:
  assumes "heptagonRadius w \<noteq> 0" and "i < HEPTAGON_SIDES"
  shows "calcVertices w rot ! i \<noteq> calcVertices w rot ! ((i + 1) mod HEPTAGON_SIDES)"
proof -
  let ?a = "rot + (real i * 2 * pi) / real HEPTAGON_SIDES"
  let ?b = "rot + (real ((i + 1) mod HEPTAGON_SIDES) * 2 * pi) / real HEPTAGON_SIDES"
  have "cos (?b - ?a) < 1"
  proof (cases "i = 6")
    case True
    then have "?b - ?a = - (2 * pi - 2 * pi / 7)"
      by (simp add: HEPTAGON_SIDES_def)
    then have "cos (?b - ?a) = cos (2 * pi / 7)"
      by (simp only: cos_minus cos_2pi_minus)
    then show ?thesis by (simp only: cos_seventh)
  next
    case False
    with assms(2) have "i < 6" by (simp add: HEPTAGON_SIDES_def)
    then have "?b - ?a = 2 * pi / 7"
      by (simp add: HEPTAGON_SIDES_def field_simps)
    then show ?thesis by (simp only: cos_seventh)
  qed
  then have "cos ?a \<noteq> cos ?b \<or> sin ?a \<noteq> sin ?b"
    by (rule unit_circle_distinct)
  moreover have "(i + 1) mod HEPTAGON_SIDES < HEPTAGON_SIDES"
    by (simp add: HEPTAGON_SIDES_def)
  ultimately show ?thesis
    using assms by (auto simp add: calcVertices_nth)
qed

lemma edge_points_distinct: "edgeP1 \<noteq> edgeP2"
  by (simp add: edgeP1_def edgeP2_def)

text \<open>
  C5, amended. When the edge has two distinct endpoints, the signed distance recomputed
  after an edge contact is the radius of the ball; when the two centres are distinct,
  the distance of the centres recomputed after a pair contact is the sum of the radii.
  So neither is below its minimum. By \<open>heptagon_edges_proper\<close> every edge of a container
  with \<open>heptagonRadius \<noteq> 0\<close> has distinct endpoints.
\<close>

theorem correction_reaches_minimum:
  "(p1 \<noteq> p2 \<and> wallDist w p1 p2 ball < radius ball \<longrightarrow>
      wallDist w p1 p2 (wallCollision w p1 p2 ball) = radius ball) \<and>
   (0 < ballDist b1 b2 \<and> ballDist b1 b2 < radius b1 + radius b2 \<longrightarrow>
      ballDist (fst (ballCollision b1 b2)) (snd (ballCollision b1 b2)) = radius b1 + radius b2)"
  by (simp add: wall_corrected_dist ballDist_collision ballDist_separate)

theorem correction_reaches_minimum_witness:
  "(edgeP1 \<noteq> edgeP2 \<and>
    wallDist edgeWorld edgeP1 edgeP2 (mkBall 1 3 2 0 2 5) < radius (mkBall 1 3 2 0 2 5)) \<and>
   wallDist edgeWorld edgeP1 edgeP2 (wallCollision edgeWorld edgeP1 edgeP2 (mkBall 1 3 2 0 2 5)) = 5 \<and>
   (0 < ballDist (mkBall 1 0 0 5 0 10) (mkBall 2 15 0 (- 5) 0 10) \<and>
    ballDist (mkBall 1 0 0 5 0 10) (mkBall 2 15 0 (- 5) 0 10)
      < radius (mkBall 1 0 0 5 0 10) + radius (mkBall 2 15 0 (- 5) 0 10)) \<and>
   ballDist (fst (ballCollision (mkBall 1 0 0 5 0 10) (mkBall 2 15 0 (- 5) 0 10)))
     (snd (ballCollision (mkBall 1 0 0 5 0 10) (mkBall 2 15 0 (- 5) 0 10))) = 20"
proof -
  have h1: "edgeP1 \<noteq> edgeP2 \<and>
    wallDist edgeWorld edgeP1 edgeP2 (mkBall 1 3 2 0 2 5) < radius (mkBall 1 3 2 0 2 5)"
    by (simp add: edge_points_distinct edge_dist mkBall_sel)
  have h2: "0 < ballDist (mkBall 1 0 0 5 0 10) (mkBall 2 15 0 (- 5) 0 10) \<and>
    ballDist (mkBall 1 0 0 5 0 10) (mkBall 2 15 0 (- 5) 0 10)
      < radius (mkBall 1 0 0 5 0 10) + radius (mkBall 2 15 0 (- 5) 0 10)"
    by (simp add: pair_dist mkBall_sel)
  from correction_reaches_minimum
         [of edgeP1 edgeP2 edgeWorld "mkBall 1 3 2 0 2 5" "mkBall 1 0 0 5 0 10"
             "mkBall 2 15 0 (- 5) 0 10"] h1 h2
  show ?thesis by (simp add: mkBall_sel)
qed

lemma flat_normal: "wallNormal flatWorld \<lparr>x = 0, y = 0\<rparr> \<lparr>x = 0, y = 0\<rparr> = \<lparr>x = 0, y = 0\<rparr>"
  by (simp add: wallNormal_degenerate length_v_def sub_def)

lemma flat_vertices: "i < HEPTAGON_SIDES \<Longrightarrow> calcVertices flatWorld rot ! i = \<lparr>x = 0, y = 0\<rparr>"
  by (simp add: calcVertices_nth flatWorld_def)

text \<open>
  C5 as stated fails where \<open>normalize\<close> falls back to the zero vector. Two balls of
  radius \<open>10\<close> with the same centre are in contact and stay at distance \<open>0\<close>, more than
  \<open>1\<close> below \<open>20\<close>; a ball of radius \<open>5\<close> against an edge of length \<open>0\<close> is in contact
  and stays at signed distance \<open>0\<close>, more than \<open>1\<close> below \<open>5\<close>.
\<close>

theorem correction_minimum_counterexample:
  "ballDist (mkBall 1 3 4 0 0 10) (mkBall 2 3 4 0 0 10)
     < radius (mkBall 1 3 4 0 0 10) + radius (mkBall 2 3 4 0 0 10) \<and>
   \<not> (radius (mkBall 1 3 4 0 0 10) + radius (mkBall 2 3 4 0 0 10) - 1
        \<le> ballDist (fst (ballCollision (mkBall 1 3 4 0 0 10) (mkBall 2 3 4 0 0 10)))
             (snd (ballCollision (mkBall 1 3 4 0 0 10) (mkBall 2 3 4 0 0 10)))) \<and>
   wallDist flatWorld \<lparr>x = 0, y = 0\<rparr> \<lparr>x = 0, y = 0\<rparr> (mkBall 1 1 1 0 0 5)
     < radius (mkBall 1 1 1 0 0 5) \<and>
   \<not> (radius (mkBall 1 1 1 0 0 5) - 1
        \<le> wallDist flatWorld \<lparr>x = 0, y = 0\<rparr> \<lparr>x = 0, y = 0\<rparr>
             (wallCollision flatWorld \<lparr>x = 0, y = 0\<rparr> \<lparr>x = 0, y = 0\<rparr> (mkBall 1 1 1 0 0 5)))"
proof -
  have c: "ballCollision (mkBall 1 3 4 0 0 10) (mkBall 2 3 4 0 0 10)
      = (mkBall 1 3 4 0 0 10, mkBall 2 3 4 0 0 10)"
    by (simp add: ballDist_coincident ballNormal_coincident ballCollision_def ballSeparate_def
        ballImpulse_def ballVn_def mult_def dot_def Let_def mkBall_sel)
  have d: "ballDist (mkBall i 3 4 0 0 10) (mkBall j 3 4 0 0 10) = 0" for i j
    by (simp add: ballDist_coincident mkBall_sel)
  have w: "wallDist flatWorld \<lparr>x = 0, y = 0\<rparr> \<lparr>x = 0, y = 0\<rparr> b = 0" for b
    by (simp add: wallDist_def flat_normal dot_zero_right)
  show ?thesis unfolding c by (simp add: d w mkBall_sel)
qed

section \<open>The physics step\<close>

lemma rotationAngle_updatePhysics:
  "rotationAngle (updatePhysics w s) = rotationAngle s + ROTATION_SPEED"
  by (simp add: updatePhysics_def Let_def)

lemma rotationAngle_frames:
  "rotationAngle ((updatePhysics w ^^ n) s) = rotationAngle s + real n * ROTATION_SPEED"
  by (induction n) (simp_all add: rotationAngle_updatePhysics algebra_simps)

text \<open>
  C6. The rotation angle starts at \<open>0\<close>; one call of \<open>updatePhysics\<close> adds
  \<open>ROTATION_SPEED\<close> to it exactly once, whatever the number of sub-steps, so after \<open>n\<close>
  calls it is \<open>n * ROTATION_SPEED\<close>; and all \<open>SUB_STEPS\<close> sub-steps of a call run on the
  one list of vertices computed from the updated angle.
\<close>

theorem rotation_once_per_frame:
  "rotationAngle (initSim bs) = 0 \<and>
   rotationAngle (updatePhysics w s) = rotationAngle s + ROTATION_SPEED \<and>
   rotationAngle ((updatePhysics w ^^ n) (initSim bs)) = real n * ROTATION_SPEED \<and>
   balls (updatePhysics w s)
     = (subStep w (calcVertices w (rotationAngle s + ROTATION_SPEED)) ^^ SUB_STEPS) (balls s)"
  by (simp add: rotationAngle_frames rotationAngle_updatePhysics)
     (simp add: initSim_def updatePhysics_def Let_def)

theorem rotation_once_per_frame_witness:
  "rotationAngle ((updatePhysics edgeWorld ^^ 3) (initSim [mkBall 1 0 0 5 0 10])) = 3 / 100"
  using rotation_once_per_frame [of "[mkBall 1 0 0 5 0 10]" edgeWorld "initSim []" 3]
  by (simp add: ROTATION_SPEED_def)

section \<open>Color and mass\<close>

lemma samePhysics_erase: "samePhysics b c \<longleftrightarrow> erase b = erase c"
  by (cases b, cases c) (auto simp add: samePhysics_def erase_def)

lemma list_all2_samePhysics: "list_all2 samePhysics bs cs \<longleftrightarrow> map erase bs = map erase cs"
proof -
  have "list_all2 samePhysics bs cs \<longleftrightarrow> list_all2 (=) (map erase bs) (map erase cs)"
    by (simp add: list.rel_map samePhysics_erase [abs_def])
  then show ?thesis by (simp add: list.rel_eq)
qed

lemma erase_sel [simp]:
  "x (erase b) = x b" "y (erase b) = y b" "vx (erase b) = vx b" "vy (erase b) = vy b"
  "radius (erase b) = radius b" "ball_id (erase b) = ball_id b"
  by (simp_all add: erase_def)

lemma erase_upd:
  "erase (b\<lparr>x := a\<rparr>) = (erase b)\<lparr>x := a\<rparr>"
  "erase (b\<lparr>y := a\<rparr>) = (erase b)\<lparr>y := a\<rparr>"
  "erase (b\<lparr>vx := a\<rparr>) = (erase b)\<lparr>vx := a\<rparr>"
  "erase (b\<lparr>vy := a\<rparr>) = (erase b)\<lparr>vy := a\<rparr>"
  by (simp_all add: erase_def)

lemma applyForces_erase: "applyForces (erase b) = erase (applyForces b)"
  by (simp add: applyForces_def Let_def erase_upd)

lemma wallDist_erase: "wallDist w p1 p2 (erase b) = wallDist w p1 p2 b"
  by (simp add: wallDist_def)

lemma wallPush_erase: "wallPush w p1 p2 (erase b) = erase (wallPush w p1 p2 b)"
  by (simp add: wallPush_def Let_def erase_upd wallDist_erase)

lemma wallV_erase: "wallV w (erase b) = wallV w b"
  by (simp add: wallV_def)

lemma wallReflect_erase: "wallReflect w n (erase b) = erase (wallReflect w n b)"
  by (simp add: wallReflect_def wallVRel_def wallV_erase Let_def erase_upd)

lemma wallCollision_erase: "wallCollision w p1 p2 (erase b) = erase (wallCollision w p1 p2 b)"
  by (simp add: wallCollision_def wallDist_erase wallPush_erase wallReflect_erase)

lemma wallCollisions_erase: "wallCollisions w vs (erase b) = erase (wallCollisions w vs b)"
proof -
  have "foldl (\<lambda>b i. wallCollision w (vs ! i) (vs ! ((i + 1) mod HEPTAGON_SIDES)) b) (erase b) ks
      = erase (foldl (\<lambda>b i. wallCollision w (vs ! i) (vs ! ((i + 1) mod HEPTAGON_SIDES)) b) b ks)" for ks
    by (induction ks arbitrary: b) (simp_all add: wallCollision_erase)
  then show ?thesis by (simp add: wallCollisions_def)
qed

lemma ballDist_erase: "ballDist (erase b) (erase c) = ballDist b c"
  by (simp add: ballDist_def sub_def)

lemma ballNormal_erase: "ballNormal (erase b) (erase c) = ballNormal b c"
  by (simp add: ballNormal_def sub_def)

lemma ballSeparate_erase:
  "ballSeparate (erase b) (erase c) = map_prod erase erase (ballSeparate b c)"
  by (simp add: ballSeparate_def Let_def ballDist_erase ballNormal_erase erase_upd)

lemma ballImpulse_erase:
  "ballImpulse n (erase b) (erase c) = map_prod erase erase (ballImpulse n b c)"
  by (simp add: ballImpulse_def ballVn_def Let_def erase_upd)

lemma ballCollision_erase:
  "ballCollision (erase b) (erase c) = map_prod erase erase (ballCollision b c)"
  by (simp add: ballCollision_def ballDist_erase ballNormal_erase ballSeparate_erase
      ballImpulse_erase split_beta)

lemma length_ballCollisions [simp]: "length (ballCollisions i js bs) = length bs"
  by (induction js arbitrary: bs) (simp_all add: split_beta)

lemma ballCollisions_erase:
  "i < length bs \<Longrightarrow> \<forall>j \<in> set js. j < length bs \<Longrightarrow>
     ballCollisions i js (map erase bs) = map erase (ballCollisions i js bs)"
proof (induction js arbitrary: bs)
  case Nil
  then show ?case by simp
next
  case (Cons j js)
  then have j: "j < length bs" by simp
  show ?case
  proof (cases "ball_id (bs ! i) = ball_id (bs ! j)")
    case True
    with Cons j show ?thesis by simp
  next
    case False
    let ?r = "ballCollision (bs ! i) (bs ! j)"
    let ?bs = "(bs[i := fst ?r])[j := snd ?r]"
    have "ballCollisions i js (map erase ?bs) = map erase (ballCollisions i js ?bs)"
      using Cons.prems by (intro Cons.IH) simp_all
    with False Cons.prems j show ?thesis
      by (simp add: ballCollision_erase split_beta map_update)
  qed
qed

lemma length_stepBall [simp]: "length (stepBall w vs bs i) = length bs"
  by (simp add: stepBall_def Let_def)

lemma stepBall_erase:
  "i < length bs \<Longrightarrow> stepBall w vs (map erase bs) i = map erase (stepBall w vs bs i)"
  by (simp add: stepBall_def Let_def applyForces_erase wallCollisions_erase map_update [symmetric]
      ballCollisions_erase)

lemma foldl_stepBall_erase:
  "\<forall>i \<in> set ks. i < length bs \<Longrightarrow>
     foldl (stepBall w vs) (map erase bs) ks = map erase (foldl (stepBall w vs) bs ks)"
  by (induction ks arbitrary: bs) (simp_all add: stepBall_erase)

lemma subStep_erase: "subStep w vs (map erase bs) = map erase (subStep w vs bs)"
  by (simp add: subStep_def foldl_stepBall_erase)

lemma subSteps_erase:
  "(subStep w vs ^^ n) (map erase bs) = map erase ((subStep w vs ^^ n) bs)"
  by (induction n) (simp_all add: subStep_erase)

text \<open>
  C9. Two arrays of balls that agree, ball by ball, on id, position, velocity and radius
  (so that they differ at most in \<open>color\<close> and \<open>mass\<close>), taken through one call of
  \<open>updatePhysics\<close> at the same rotation angle, agree again on id, position, velocity and
  radius.
\<close>

theorem physics_ignores_color_and_mass:
  "list_all2 samePhysics bs cs \<Longrightarrow>
     list_all2 samePhysics (balls (updatePhysics w \<lparr>rotationAngle = r, balls = bs\<rparr>))
                           (balls (updatePhysics w \<lparr>rotationAngle = r, balls = cs\<rparr>))"
  by (simp add: list_all2_samePhysics updatePhysics_def Let_def subSteps_erase [symmetric])

theorem physics_ignores_color_and_mass_witness:
  "list_all2 samePhysics
     [mkBall 1 0 0 5 0 10, mkBall 2 15 0 (- 5) 0 10]
     [(mkBall 1 0 0 5 0 10)\<lparr>color := ''hsl(90, 70%, 60%)'', mass := 3\<rparr>,
      (mkBall 2 15 0 (- 5) 0 10)\<lparr>mass := 7\<rparr>] \<and>
   mass ((mkBall 1 0 0 5 0 10)\<lparr>color := ''hsl(90, 70%, 60%)'', mass := 3\<rparr>)
     \<noteq> mass (mkBall 1 0 0 5 0 10) \<and>
   list_all2 samePhysics
     (balls (updatePhysics edgeWorld
        \<lparr>rotationAngle = 0, balls = [mkBall 1 0 0 5 0 10, mkBall 2 15 0 (- 5) 0 10]\<rparr>))
     (balls (updatePhysics edgeWorld
        \<lparr>rotationAngle = 0,
         balls = [(mkBall 1 0 0 5 0 10)\<lparr>color := ''hsl(90, 70%, 60%)'', mass := 3\<rparr>,
                  (mkBall 2 15 0 (- 5) 0 10)\<lparr>mass := 7\<rparr>]\<rparr>))"
proof -
  have h: "list_all2 samePhysics
     [mkBall 1 0 0 5 0 10, mkBall 2 15 0 (- 5) 0 10]
     [(mkBall 1 0 0 5 0 10)\<lparr>color := ''hsl(90, 70%, 60%)'', mass := 3\<rparr>,
      (mkBall 2 15 0 (- 5) 0 10)\<lparr>mass := 7\<rparr>]"
    by (simp add: samePhysics_def mkBall_def)
  have m: "mass ((mkBall 1 0 0 5 0 10)\<lparr>color := ''hsl(90, 70%, 60%)'', mass := 3\<rparr>)
     \<noteq> mass (mkBall 1 0 0 5 0 10)"
    by (simp add: mkBall_def)
  from h m physics_ignores_color_and_mass [OF h, of edgeWorld 0] show ?thesis
    by (intro conjI)
qed

section \<open>A ball well inside the container\<close>

text \<open>
  For a container with positive \<open>heptagonRadius\<close>, the inward normal of the edge that
  starts at angle \<open>th\<close> is the unit vector at angle \<open>th + pi / 7\<close>, reversed, and the
  signed distance of a ball from that edge is the apothem minus the projection of its
  offset from the centre. A ball whose radius plus offset stays below half of
  \<open>heptagonRadius\<close> therefore touches no edge, and the edge loop returns it as it was.
\<close>

lemma calcVertices_next:
  assumes "i < HEPTAGON_SIDES"
  shows "calcVertices w rot ! ((i + 1) mod HEPTAGON_SIDES) =
       \<lparr>x = centerX w + heptagonRadius w * cos (rot + (real i * 2 * pi) / real HEPTAGON_SIDES + 2 * pi / 7),
        y = centerY w + heptagonRadius w * sin (rot + (real i * 2 * pi) / real HEPTAGON_SIDES + 2 * pi / 7)\<rparr>"
proof (cases "i = 6")
  case True
  have "cos (2 * pi + rot) = cos rot" "sin (2 * pi + rot) = sin rot"
    by (simp_all add: add.commute [of "2 * pi"])
  then show ?thesis using True
    by (simp add: calcVertices_nth HEPTAGON_SIDES_def)
next
  case False
  with assms have i: "i < 6" by (simp add: HEPTAGON_SIDES_def)
  then have m: "(i + 1) mod HEPTAGON_SIDES = i + 1" by (simp add: HEPTAGON_SIDES_def)
  have "rot + (real (i + 1) * 2 * pi) / real HEPTAGON_SIDES
      = rot + (real i * 2 * pi) / real HEPTAGON_SIDES + 2 * pi / 7"
    by (simp add: HEPTAGON_SIDES_def field_simps)
  moreover have "i + 1 < HEPTAGON_SIDES" using i by (simp add: HEPTAGON_SIDES_def)
  ultimately show ?thesis unfolding m
    by (simp only: calcVertices_nth)
qed

lemma sin_cos_seventh_pos: "0 < sin (pi / 7)" "0 < cos (pi / 7)"
proof -
  show "0 < sin (pi / 7)" by (rule sin_gt_zero) (simp_all add: pi_gt_zero)
  show "0 < cos (pi / 7)" by (rule cos_gt_zero) (simp_all add: pi_gt_zero)
qed

lemma cos_seventh_half: "1 / 2 \<le> cos (pi / 7)"
  using cos_monotone_0_pi_le [of "pi / 7" "pi / 3"] by (simp add: cos_60)

lemma sin_cos_squared_mult: "sin a * sin a + cos a * cos a = (1::real)"
  using sin_cos_squared_add [of a] by (simp add: power2_eq_square)

lemma scaled_square_sum:
  fixes k a b :: real
  shows "(- k * a) * (- k * a) + (k * b) * (k * b) = k * k * (a * a + b * b)"
  by algebra

lemma scaled_dot_sum:
  fixes k a b :: real
  shows "(- a) * (- (k * a)) + (- b) * (- (k * b)) = k * (b * b + a * a)"
  by algebra

lemma regular_edge_normal:
  fixes th :: real
  assumes R: "0 < heptagonRadius w"
  shows "wallNormal w
           \<lparr>x = centerX w + heptagonRadius w * cos th, y = centerY w + heptagonRadius w * sin th\<rparr>
           \<lparr>x = centerX w + heptagonRadius w * cos (th + 2 * pi / 7),
            y = centerY w + heptagonRadius w * sin (th + 2 * pi / 7)\<rparr>
         = \<lparr>x = - cos (th + pi / 7), y = - sin (th + pi / 7)\<rparr>"
proof -
  define ph where "ph = th + pi / 7"
  define s where "s = sin (pi / 7)"
  define c where "c = cos (pi / 7)"
  define r where "r = heptagonRadius w"
  have s: "0 < s" and c: "0 < c" and r: "0 < r"
    using R by (simp_all add: s_def c_def r_def sin_cos_seventh_pos)
  have t1: "th = ph - pi / 7" and t2: "th + 2 * pi / 7 = ph + pi / 7"
    by (simp_all add: ph_def)
  have c1: "cos th = cos ph * c + sin ph * s" and s1: "sin th = sin ph * c - cos ph * s"
    unfolding t1 by (simp_all add: cos_diff sin_diff c_def s_def)
  have c2: "cos (th + 2 * pi / 7) = cos ph * c - sin ph * s"
    and s2: "sin (th + 2 * pi / 7) = sin ph * c + cos ph * s"
    unfolding t2 by (simp_all add: cos_add sin_add c_def s_def)
  let ?p1 = "\<lparr>x = centerX w + r * cos th, y = centerY w + r * sin th\<rparr>"
  let ?p2 = "\<lparr>x = centerX w + r * cos (th + 2 * pi / 7), y = centerY w + r * sin (th + 2 * pi / 7)\<rparr>"
  have wv: "sub ?p2 ?p1 = \<lparr>x = - (2 * r * s) * sin ph, y = (2 * r * s) * cos ph\<rparr>"
    unfolding c2 s2 c1 s1 by (simp add: sub_def algebra_simps)
  have e: "(- (2 * r * s) * sin ph) * (- (2 * r * s) * sin ph) + ((2 * r * s) * cos ph) * ((2 * r * s) * cos ph)
      = (2 * r * s) * (2 * r * s) * (sin ph * sin ph + cos ph * cos ph)"
    by (rule scaled_square_sum)
  have "length_v (sub ?p2 ?p1)
      = sqrt ((- (2 * r * s) * sin ph) * (- (2 * r * s) * sin ph) + ((2 * r * s) * cos ph) * ((2 * r * s) * cos ph))"
    unfolding wv length_v_def by (simp only: Vector.select_convs)
  also have "\<dots> = sqrt ((2 * r * s) * (2 * r * s))"
    unfolding e sin_cos_squared_mult by simp
  also have "\<dots> = \<bar>2 * r * s\<bar>"
    by (rule real_sqrt_abs2)
  also have "\<dots> = 2 * r * s"
    using r s by simp
  finally have len: "length_v (sub ?p2 ?p1) = 2 * r * s" .
  have pos: "2 * r * s \<noteq> 0" using r s by simp
  have wu: "normalize_v (sub ?p2 ?p1) = \<lparr>x = - sin ph, y = cos ph\<rparr>"
    unfolding normalize_v_def len Let_def using pos by (simp add: wv)
  have mid: "mult (add ?p1 ?p2) (1 / 2) = \<lparr>x = centerX w + r * c * cos ph, y = centerY w + r * c * sin ph\<rparr>"
    unfolding c2 s2 c1 s1 by (simp add: mult_def add_def algebra_simps)
  have tc: "sub \<lparr>x = centerX w, y = centerY w\<rparr> (mult (add ?p1 ?p2) (1 / 2))
      = \<lparr>x = - (r * c * cos ph), y = - (r * c * sin ph)\<rparr>"
    unfolding mid by (simp add: sub_def)
  have d: "dot \<lparr>x = - cos ph, y = - sin ph\<rparr> \<lparr>x = - (r * c * cos ph), y = - (r * c * sin ph)\<rparr> = r * c"
    unfolding dot_def Vector.select_convs scaled_dot_sum sin_cos_squared_mult by simp
  have rc: "\<not> r * c < 0"
    using r c by (simp add: not_less)
  have "wallNormal w ?p1 ?p2 = \<lparr>x = - cos ph, y = - sin ph\<rparr>"
    unfolding wallNormal_def Let_def wu tc using rc by (simp add: d)
  then show ?thesis by (simp add: r_def ph_def)
qed

lemma regular_edge_dist:
  fixes th :: real
  assumes R: "0 < heptagonRadius w"
  shows "wallDist w
           \<lparr>x = centerX w + heptagonRadius w * cos th, y = centerY w + heptagonRadius w * sin th\<rparr>
           \<lparr>x = centerX w + heptagonRadius w * cos (th + 2 * pi / 7),
            y = centerY w + heptagonRadius w * sin (th + 2 * pi / 7)\<rparr> b
         = heptagonRadius w * cos (pi / 7)
           - ((x b - centerX w) * cos (th + pi / 7) + (y b - centerY w) * sin (th + pi / 7))"
proof -
  have "cos (pi / 7) = cos ((th + pi / 7) - th)" by simp
  also have "\<dots> = cos (th + pi / 7) * cos th + sin (th + pi / 7) * sin th"
    by (rule cos_diff)
  finally have c: "cos (pi / 7) = cos (th + pi / 7) * cos th + sin (th + pi / 7) * sin th" .
  show ?thesis
    unfolding wallDist_def Let_def regular_edge_normal [OF R] c
    by (simp add: sub_def dot_def algebra_simps)
qed

lemma projection_bound:
  fixes a b t :: real
  shows "a * cos t + b * sin t \<le> \<bar>a\<bar> + \<bar>b\<bar>"
proof -
  have "a * cos t \<le> \<bar>a * cos t\<bar>" "b * sin t \<le> \<bar>b * sin t\<bar>" by simp_all
  moreover have "\<bar>a * cos t\<bar> \<le> \<bar>a\<bar>" "\<bar>b * sin t\<bar> \<le> \<bar>b\<bar>"
    by (simp_all add: abs_mult mult_left_le)
  ultimately show ?thesis by linarith
qed

lemma well_inside_edge:
  assumes R: "0 < heptagonRadius w" and i: "i < HEPTAGON_SIDES"
    and b: "radius b + \<bar>x b - centerX w\<bar> + \<bar>y b - centerY w\<bar> \<le> heptagonRadius w / 2"
  shows "wallCollision w (calcVertices w rot ! i)
           (calcVertices w rot ! ((i + 1) mod HEPTAGON_SIDES)) b = b"
proof -
  let ?th = "rot + (real i * 2 * pi) / real HEPTAGON_SIDES"
  have "heptagonRadius w / 2 \<le> heptagonRadius w * cos (pi / 7)"
    using R cos_seventh_half by (simp add: field_simps)
  moreover have "(x b - centerX w) * cos (?th + pi / 7) + (y b - centerY w) * sin (?th + pi / 7)
      \<le> \<bar>x b - centerX w\<bar> + \<bar>y b - centerY w\<bar>"
    by (rule projection_bound)
  ultimately have "radius b \<le> wallDist w (calcVertices w rot ! i)
           (calcVertices w rot ! ((i + 1) mod HEPTAGON_SIDES)) b"
    unfolding calcVertices_nth [OF i] calcVertices_next [OF i] regular_edge_dist [OF R]
    using b by linarith
  then show ?thesis by (simp add: wallCollision_def)
qed

lemma foldl_fixed:
  "(\<And>i. i \<in> set ks \<Longrightarrow> f b i = b) \<Longrightarrow> foldl f b ks = b"
  by (induction ks) simp_all

lemma well_inside_no_wall_contact:
  assumes "0 < heptagonRadius w"
    and "radius b + \<bar>x b - centerX w\<bar> + \<bar>y b - centerY w\<bar> \<le> heptagonRadius w / 2"
  shows "wallCollisions w (calcVertices w rot) b = b"
proof -
  have "wallCollision w (calcVertices w rot ! i)
          (calcVertices w rot ! ((i + 1) mod HEPTAGON_SIDES)) b = b"
    if "i \<in> set [0..<HEPTAGON_SIDES]" for i
    using that well_inside_edge [OF assms(1) _ assms(2)] by simp
  then show ?thesis
    unfolding wallCollisions_def by (rule foldl_fixed)
qed

section \<open>Coincident centres over a sub-step\<close>

lemma applyForces_mkBall:
  "applyForces (mkBall i px py a b r)
     = mkBall i (px + a * FRICTION * (1 / 8)) (py + (b + GRAVITY * (1 / 8)) * FRICTION * (1 / 8))
         (a * FRICTION) ((b + GRAVITY * (1 / 8)) * FRICTION) r"
  by (simp add: applyForces_def Let_def SUB_STEPS_def mkBall_sel mkBall_upd)

lemma ballDist_sym: "ballDist b c = ballDist c b"
proof -
  have "(x c - x b) * (x c - x b) + (y c - y b) * (y c - y b)
      = (x b - x c) * (x b - x c) + (y b - y c) * (y b - y c)"
    by algebra
  then show ?thesis by (simp add: ballDist_def length_v_def sub_def)
qed

lemma ballDist_vertical:
  "x b = x c \<Longrightarrow> ballDist b c = \<bar>y c - y b\<bar>"
  by (simp add: ballDist_def length_v_def sub_def)

lemma ballCollision_id [simp]:
  "ball_id (fst (ballCollision b c)) = ball_id b" "ball_id (snd (ballCollision b c)) = ball_id c"
  by (simp_all add: ballCollision_def ballSeparate_def ballImpulse_def Let_def split_beta)

lemma wide_inside:
  "\<bar>a\<bar> + \<bar>b\<bar> \<le> 188 \<Longrightarrow>
     wallCollisions wideWorld (calcVertices wideWorld rot) (mkBall i (500 + a) (500 + b) c d 12)
       = mkBall i (500 + a) (500 + b) c d 12"
  by (rule well_inside_no_wall_contact) (simp_all add: wideWorld_def mkBall_sel)

lemma wide_turn_first:
  "stepBall wideWorld (calcVertices wideWorld rot)
     [mkBall 1 500 500 0 (- (3 / 160)) 12, mkBall 2 500 500 0 0 12] 0
   = [mkBall 1 500 500 0 0 12, mkBall 2 500 500 0 0 12]"
proof -
  have a: "applyForces (mkBall 1 500 500 0 (- (3 / 160)) 12) = mkBall 1 (500 + 0) (500 + 0) 0 0 12"
    by (simp add: applyForces_mkBall GRAVITY_def FRICTION_def)
  have w: "wallCollisions wideWorld (calcVertices wideWorld rot) (mkBall 1 (500 + 0) (500 + 0) 0 0 12)
      = mkBall 1 (500 + 0) (500 + 0) 0 0 12"
    by (rule wide_inside) simp
  have c: "ballCollision (mkBall i 500 500 0 0 12) (mkBall j 500 500 0 0 12)
      = (mkBall i 500 500 0 0 12, mkBall j 500 500 0 0 12)" for i j
    by (simp add: ballDist_coincident ballNormal_coincident ballCollision_def ballSeparate_def
        ballImpulse_def ballVn_def mult_def dot_def Let_def mkBall_sel)
  have u: "[0..<2] = [0, Suc 0]" by (simp add: upt_rec)
  show ?thesis
    unfolding stepBall_def Let_def nth_Cons_0 a w
    by (simp add: u c mkBall_sel)
qed

lemma wide_turn_second:
  "stepBall wideWorld (calcVertices wideWorld rot)
     [mkBall 1 500 500 0 0 12, mkBall 2 500 500 0 0 12] 1
   = [snd (ballCollision (mkBall 2 500 (500 + 297 / 128000) 0 (297 / 16000) 12)
                         (mkBall 1 500 500 0 0 12)),
      fst (ballCollision (mkBall 2 500 (500 + 297 / 128000) 0 (297 / 16000) 12)
                         (mkBall 1 500 500 0 0 12))]"
proof -
  have a: "applyForces (mkBall 2 500 500 0 0 12)
      = mkBall 2 (500 + 0) (500 + 297 / 128000) 0 (297 / 16000) 12"
    by (simp add: applyForces_mkBall GRAVITY_def FRICTION_def)
  have w: "wallCollisions wideWorld (calcVertices wideWorld rot)
        (mkBall 2 (500 + 0) (500 + 297 / 128000) 0 (297 / 16000) 12)
      = mkBall 2 (500 + 0) (500 + 297 / 128000) 0 (297 / 16000) 12"
    by (rule wide_inside) simp
  have u: "[0..<2] = [0, Suc 0]" by (simp add: upt_rec)
  have n: "[mkBall 1 500 500 0 0 12, mkBall 2 500 500 0 0 12] ! 1 = mkBall 2 500 500 0 0 12"
    by simp
  show ?thesis
    unfolding stepBall_def Let_def n a w
    by (simp add: u mkBall_sel split_beta)
qed

text \<open>
  C10 as stated fails in its last clause. In a window of \<open>1000\<close> by \<open>1000\<close>, take ball 1
  at the centre with velocity \<open>(0, -3/160)\<close> and ball 2 at the centre at rest, both of
  radius \<open>12\<close>. In the turn of ball 1 gravity cancels its velocity, it stays at the centre,
  the pair is met with coincident centres and nothing changes. In the turn of ball 2,
  later in the same sub-step, gravity moves ball 2 before the pair is met again, the
  centres are distinct, and the correction separates them: at the end of the sub-step
  the centres are at distance \<open>24\<close>, the sum of the radii, so the overlap is gone.
\<close>

theorem coincident_overlap_removed_counterexample:
  "stepBall wideWorld (calcVertices wideWorld ROTATION_SPEED)
     [mkBall 1 500 500 0 (- (3 / 160)) 12, mkBall 2 500 500 0 0 12] 0
     = [mkBall 1 500 500 0 0 12, mkBall 2 500 500 0 0 12] \<and>
   ballDist (mkBall 1 500 500 0 0 12) (mkBall 2 500 500 0 0 12) = 0 \<and>
   ballDist
     (subStep wideWorld (calcVertices wideWorld ROTATION_SPEED)
        [mkBall 1 500 500 0 (- (3 / 160)) 12, mkBall 2 500 500 0 0 12] ! 0)
     (subStep wideWorld (calcVertices wideWorld ROTATION_SPEED)
        [mkBall 1 500 500 0 (- (3 / 160)) 12, mkBall 2 500 500 0 0 12] ! 1)
     = radius (mkBall 1 500 500 0 0 12) + radius (mkBall 2 500 500 0 0 12)"
proof -
  let ?B1 = "mkBall 2 500 (500 + 297 / 128000) 0 (297 / 16000) 12"
  let ?A1 = "mkBall 1 500 500 0 0 12"
  have d: "ballDist ?B1 ?A1 = 297 / 128000"
    by (simp add: ballDist_vertical mkBall_sel)
  have lt: "ballDist ?B1 ?A1 < radius ?B1 + radius ?A1"
    unfolding d mkBall_sel by simp
  have pos: "0 < ballDist ?B1 ?A1"
    unfolding d by simp
  have "ballDist (fst (ballCollision ?B1 ?A1)) (snd (ballCollision ?B1 ?A1))
      = ballDist (fst (ballSeparate ?B1 ?A1)) (snd (ballSeparate ?B1 ?A1))"
    by (rule ballDist_collision [OF lt])
  also have "\<dots> = radius ?B1 + radius ?A1"
    by (rule ballDist_separate [OF pos lt])
  finally have f: "ballDist (fst (ballCollision ?B1 ?A1)) (snd (ballCollision ?B1 ?A1))
      = radius ?B1 + radius ?A1" .
  have "ballDist (snd (ballCollision ?B1 ?A1)) (fst (ballCollision ?B1 ?A1))
      = ballDist (fst (ballCollision ?B1 ?A1)) (snd (ballCollision ?B1 ?A1))"
    by (rule ballDist_sym)
  also note f
  finally have e: "ballDist (snd (ballCollision ?B1 ?A1)) (fst (ballCollision ?B1 ?A1))
      = radius ?B1 + radius ?A1" .
  have u: "[0..<2] = [0, Suc 0]" by (simp add: upt_rec)
  have "subStep wideWorld (calcVertices wideWorld ROTATION_SPEED)
        [mkBall 1 500 500 0 (- (3 / 160)) 12, mkBall 2 500 500 0 0 12]
      = stepBall wideWorld (calcVertices wideWorld ROTATION_SPEED)
          (stepBall wideWorld (calcVertices wideWorld ROTATION_SPEED)
             [mkBall 1 500 500 0 (- (3 / 160)) 12, mkBall 2 500 500 0 0 12] 0) 1"
    by (simp add: subStep_def u)
  also have "\<dots> = stepBall wideWorld (calcVertices wideWorld ROTATION_SPEED)
          [mkBall 1 500 500 0 0 12, mkBall 2 500 500 0 0 12] 1"
    unfolding wide_turn_first ..
  also have "\<dots> = [snd (ballCollision ?B1 ?A1), fst (ballCollision ?B1 ?A1)]"
    by (rule wide_turn_second)
  finally have s: "subStep wideWorld (calcVertices wideWorld ROTATION_SPEED)
        [mkBall 1 500 500 0 (- (3 / 160)) 12, mkBall 2 500 500 0 0 12]
      = [snd (ballCollision ?B1 ?A1), fst (ballCollision ?B1 ?A1)]" .
  have z: "ballDist ?A1 (mkBall 2 500 500 0 0 12) = 0"
    by (rule ballDist_coincident) (simp_all add: mkBall_sel)
  have n0: "[p, q] ! 0 = p" and n1: "[p, q] ! 1 = q" for p q :: Ball
    by simp_all
  have r: "radius ?B1 + radius ?A1 = radius ?A1 + radius (mkBall 2 500 500 0 0 12)"
    by (simp add: mkBall_sel)
  show ?thesis
    unfolding s n0 n1 wide_turn_first z e r by (intro conjI refl)
qed

end
